theory Spec2Isabelle
  imports Main
begin

section \<open>JavaScript values\<close>

text \<open>
  The hooks handle plain data: what \<^verbatim>\<open>JSON.parse\<close> and \<^verbatim>\<open>jwtDecode\<close> return, what the
  caller passes as \<^verbatim>\<open>usuario\<close>, and \<^verbatim>\<open>undefined\<close>. Strings are byte strings; a number is
  the integer it denotes (\<open>JNum\<close>) or \<^verbatim>\<open>NaN\<close> (\<open>JNaN\<close>): fractions, infinities and the
  rounding of doubles beyond \<open>2 ^ 53\<close> are outside the model, and so are functions,
  symbols, getters and objects that override \<^verbatim>\<open>toString\<close> or \<^verbatim>\<open>valueOf\<close>.
  An object is the list of its own properties; a lookup takes the first entry of a key.
\<close>

datatype jsval =
    JUndefined
  | JNull
  | JBool bool
  | JNum int
  | JNaN
  | JStr string
  | JArr "jsval list"
  | JObj "(string \<times> jsval) list"

text \<open>\<^verbatim>\<open>typeof v\<close>.\<close>

fun typeof :: "jsval \<Rightarrow> string" where
  "typeof JUndefined = ''undefined''"
| "typeof JNull = ''object''"
| "typeof (JBool _) = ''boolean''"
| "typeof (JNum _) = ''number''"
| "typeof JNaN = ''number''"
| "typeof (JStr _) = ''string''"
| "typeof (JArr _) = ''object''"
| "typeof (JObj _) = ''object''"

text \<open>\<^verbatim>\<open>ToBoolean\<close>: what \<^verbatim>\<open>!v\<close>, \<^verbatim>\<open>v ? a : b\<close>, \<^verbatim>\<open>v || w\<close> and \<^verbatim>\<open>v && w\<close> test.\<close>

fun truthy :: "jsval \<Rightarrow> bool" where
  "truthy JUndefined = False"
| "truthy JNull = False"
| "truthy (JBool b) = b"
| "truthy (JNum n) = (n \<noteq> 0)"
| "truthy JNaN = False"
| "truthy (JStr s) = (s \<noteq> [])"
| "truthy (JArr _) = True"
| "truthy (JObj _) = True"

text \<open>
  Reading a property. The hooks read only the keys \<^verbatim>\<open>data\<close>, \<^verbatim>\<open>tipo_usuario_id\<close>,
  \<^verbatim>\<open>persona\<close> and \<^verbatim>\<open>exp\<close>, which no string, number, boolean or array has:
  there the read gives \<^verbatim>\<open>undefined\<close>. On \<^verbatim>\<open>null\<close> and \<^verbatim>\<open>undefined\<close> it throws a
  TypeError (\<open>None\<close>).
\<close>

fun propOf :: "jsval \<Rightarrow> string \<Rightarrow> jsval" where
  "propOf (JObj kvs) k = (case map_of kvs k of None \<Rightarrow> JUndefined | Some v \<Rightarrow> v)"
| "propOf _ k = JUndefined"

definition getProp :: "jsval \<Rightarrow> string \<Rightarrow> jsval option" where
  "getProp v k = (if v = JNull \<or> v = JUndefined then None else Some (propOf v k))"

text \<open>The decimal digits of a natural number, and \<^verbatim>\<open>ToString\<close>.\<close>

fun digits :: "nat \<Rightarrow> string" where
  "digits n =
     (if n < 10 then [''0123456789'' ! n]
      else digits (n div 10) @ [''0123456789'' ! (n mod 10)])"

definition showInt :: "int \<Rightarrow> string" where
  "showInt i = (if i < 0 then ''-'' @ digits (nat (- i)) else digits (nat i))"

fun joinComma :: "string list \<Rightarrow> string" where
  "joinComma [] = []"
| "joinComma [s] = s"
| "joinComma (s # t # ss) = s @ '','' @ joinComma (t # ss)"

fun ToString :: "jsval \<Rightarrow> string" where
  "ToString JUndefined = ''undefined''"
| "ToString JNull = ''null''"
| "ToString (JBool b) = (if b then ''true'' else ''false'')"
| "ToString (JNum n) = showInt n"
| "ToString JNaN = ''NaN''"
| "ToString (JStr s) = s"
| "ToString (JArr xs) =
     joinComma (map (\<lambda>x. if x = JUndefined \<or> x = JNull then [] else ToString x) xs)"
| "ToString (JObj _) = ''[object Object]''"

text \<open>
  Object spread \<^verbatim>\<open>{ ...v }\<close>: the own enumerable properties of \<open>v\<close>; an array and a
  string give their elements under the indices, the other primitives nothing.
\<close>

fun spread :: "jsval \<Rightarrow> (string \<times> jsval) list" where
  "spread (JObj kvs) = kvs"
| "spread (JArr xs) = zip (map digits [0 ..< length xs]) xs"
| "spread (JStr s) = zip (map digits [0 ..< length s]) (map (\<lambda>c. JStr [c]) s)"
| "spread _ = []"

text \<open>\<^verbatim>\<open>delete o[k]\<close> on the property list of an object.\<close>

definition deleteProp :: "string \<Rightarrow> (string \<times> jsval) list \<Rightarrow> (string \<times> jsval) list" where
  "deleteProp k kvs = filter (\<lambda>kv. fst kv \<noteq> k) kvs"

text \<open>
  \<^verbatim>\<open>String.prototype.toLowerCase\<close>, on the ASCII letters. A character outside ASCII is
  left as it is: none of them lowers to one of the letters of \<^verbatim>\<open>true\<close>, the only word
  the result is compared with.
\<close>

definition toLowerCase_char :: "char \<Rightarrow> char" where
  "toLowerCase_char c =
     (case map_of (zip ''ABCDEFGHIJKLMNOPQRSTUVWXYZ'' ''abcdefghijklmnopqrstuvwxyz'') c of
        None \<Rightarrow> c
      | Some l \<Rightarrow> l)"

definition toLowerCase :: "string \<Rightarrow> string" where
  "toLowerCase s = map toLowerCase_char s"

text \<open>
  \<^verbatim>\<open>parseInt(v, 10)\<close>: the argument as a string, leading white space dropped, an
  optional sign, then the longest run of decimal digits; \<^verbatim>\<open>NaN\<close> when there is none.
\<close>

definition isWhiteSpace :: "char \<Rightarrow> bool" where
  "isWhiteSpace c = (c \<in> set [CHR '' '', CHR 0x09, CHR 0x0A, CHR 0x0B, CHR 0x0C, CHR 0x0D])"

definition isDigit :: "char \<Rightarrow> bool" where
  "isDigit c = (c \<in> set ''0123456789'')"

definition digitVal :: "char \<Rightarrow> int" where
  "digitVal c = (case map_of (zip ''0123456789'' [0, 1, 2, 3, 4, 5, 6, 7, 8, 9]) c of
                   None \<Rightarrow> 0
                 | Some d \<Rightarrow> d)"

definition digitsVal :: "string \<Rightarrow> int" where
  "digitsVal ds = foldl (\<lambda>acc c. 10 * acc + digitVal c) 0 ds"

definition parseInt :: "jsval \<Rightarrow> jsval" where
  "parseInt v =
     (let s = dropWhile isWhiteSpace (ToString v);
          neg = (s \<noteq> [] \<and> hd s = CHR ''-'');
          body = (if s \<noteq> [] \<and> (hd s = CHR ''-'' \<or> hd s = CHR ''+'') then tl s else s);
          ds = takeWhile isDigit body
      in if ds = [] then JNaN
         else JNum (if neg then - digitsVal ds else digitsVal ds))"

text \<open>
  \<^verbatim>\<open>Array.prototype.includes\<close> compares by SameValueZero; for a number or \<^verbatim>\<open>NaN\<close>
  searched in a list of values that is equality.
\<close>

definition arrayIncludes :: "jsval list \<Rightarrow> jsval \<Rightarrow> bool" where
  "arrayIncludes xs v = (v \<in> set xs)"

section \<open>The environment hook: useEnv.js\<close>

text \<open>
  \<^verbatim>\<open>import.meta.env\<close>: the flag \<^verbatim>\<open>DEV\<close> and the twelve variables, each a string or
  undefined (\<open>None\<close>).
\<close>

record ImportMetaEnv =
  DEV :: bool
  VITE_BASENAME_DEV :: "string option"
  VITE_BASE_URL_DEV :: "string option"
  VITE_URL_REDIRECT_DEV :: "string option"
  VITE_URL_OAUTH_DEV :: "string option"
  VITE_CLIENTE_ID_DEV :: "string option"
  VITE_TEST_DEV :: "string option"
  VITE_BASENAME :: "string option"
  VITE_BASE_URL :: "string option"
  VITE_URL_REDIRECT :: "string option"
  VITE_URL_OAUTH :: "string option"
  VITE_CLIENTE_ID :: "string option"
  VITE_TEST :: "string option"

record envVars =
  BASENAME :: "string option"
  BASE_URL :: "string option"
  URL_REDIRECT :: "string option"
  URL_OAUTH :: "string option"
  CLIENTE_ID :: "string option"
  TEST :: bool
  ENV_LOADED :: bool

text \<open>\<^verbatim>\<open>v || ""\<close> for a string or undefined.\<close>

definition orEmpty :: "string option \<Rightarrow> string" where
  "orEmpty v = (case v of None \<Rightarrow> [] | Some s \<Rightarrow> s)"

definition useEnv :: "ImportMetaEnv \<Rightarrow> envVars" where
  "useEnv env =
     (if DEV env then
        \<lparr> BASENAME = VITE_BASENAME_DEV env,
          BASE_URL = VITE_BASE_URL_DEV env,
          URL_REDIRECT = VITE_URL_REDIRECT_DEV env,
          URL_OAUTH = VITE_URL_OAUTH_DEV env,
          CLIENTE_ID = VITE_CLIENTE_ID_DEV env,
          TEST = (toLowerCase (orEmpty (VITE_TEST_DEV env)) = ''true''),
          ENV_LOADED = True \<rparr>
      else
        \<lparr> BASENAME = VITE_BASENAME env,
          BASE_URL = VITE_BASE_URL env,
          URL_REDIRECT = VITE_URL_REDIRECT env,
          URL_OAUTH = VITE_URL_OAUTH env,
          CLIENTE_ID = VITE_CLIENTE_ID env,
          TEST = (toLowerCase (orEmpty (VITE_TEST env)) = ''true''),
          ENV_LOADED = True \<rparr>)"

text \<open>The variable that decides \<open>TEST\<close>: the one of the namespace \<open>DEV\<close> selects.\<close>

definition testVar :: "ImportMetaEnv \<Rightarrow> string option" where
  "testVar env = (if DEV env then VITE_TEST_DEV env else VITE_TEST env)"

text \<open>A production environment in which only \<^verbatim>\<open>VITE_BASENAME\<close> and \<^verbatim>\<open>VITE_TEST\<close> are set.\<close>

definition prodEnv :: "string option \<Rightarrow> string option \<Rightarrow> ImportMetaEnv" where
  "prodEnv base t =
     \<lparr> DEV = False,
       VITE_BASENAME_DEV = None, VITE_BASE_URL_DEV = None, VITE_URL_REDIRECT_DEV = None,
       VITE_URL_OAUTH_DEV = None, VITE_CLIENTE_ID_DEV = None, VITE_TEST_DEV = None,
       VITE_BASENAME = base, VITE_BASE_URL = None, VITE_URL_REDIRECT = None,
       VITE_URL_OAUTH = None, VITE_CLIENTE_ID = None, VITE_TEST = t \<rparr>"

section \<open>The session hook: useUser.js\<close>

text \<open>
  What the hook takes from its host: \<^verbatim>\<open>jwtDecode\<close> (\<open>None\<close> when it throws),
  \<^verbatim>\<open>JSON.parse\<close> (\<open>None\<close> for a SyntaxError), \<^verbatim>\<open>JSON.stringify\<close> (a string, or
  \<^verbatim>\<open>undefined\<close>) and the conversion of a string to a number.
\<close>

record runtime =
  jwtDecode :: "string \<Rightarrow> jsval option"
  JSON_parse :: "string \<Rightarrow> jsval option"
  JSON_stringify :: "jsval \<Rightarrow> jsval"
  StringToNumber :: "string \<Rightarrow> jsval"

text \<open>
  The five \<^verbatim>\<open>useState\<close> slots and \<^verbatim>\<open>localStorage\<close>. \<open>logged\<close> is \<open>None\<close> for
  \<^verbatim>\<open>null\<close> ("not verified yet"), \<open>token\<close> is \<open>None\<close> for \<^verbatim>\<open>null\<close>. An operation
  reads the slots of the render it was created in and its setter calls take effect
  together, in the next render: the operations below map the one state to the other.
\<close>

record session =
  usuario :: jsval
  persona :: jsval
  tipoUsuarioId :: jsval
  logged :: "bool option"
  token :: "string option"
  localStorage :: "string \<rightharpoonup> string"

definition useUser_init :: "(string \<rightharpoonup> string) \<Rightarrow> session" where
  "useUser_init store =
     \<lparr> usuario = JNull, persona = JNull, tipoUsuarioId = JNull,
       logged = None, token = None, localStorage = store \<rparr>"

text \<open>The template literal \<^verbatim>\<open>`${BASENAME}_token`\<close> and its two siblings.\<close>

definition storageKey :: "envVars \<Rightarrow> string \<Rightarrow> string" where
  "storageKey ev suffix = (case BASENAME ev of None \<Rightarrow> ''undefined'' | Some b \<Rightarrow> b) @ suffix"

definition getItem :: "session \<Rightarrow> string \<Rightarrow> string option" where
  "getItem st k = localStorage st k"

definition setItem :: "string \<Rightarrow> string \<Rightarrow> session \<Rightarrow> session" where
  "setItem k v st = st\<lparr>localStorage := (localStorage st)(k \<mapsto> v)\<rparr>"

definition clearStorage :: "session \<Rightarrow> session" where
  "clearStorage st = st\<lparr>localStorage := Map.empty\<rparr>"

text \<open>Truthiness of what \<^verbatim>\<open>getItem\<close> returns, and that result as a value.\<close>

definition truthyItem :: "string option \<Rightarrow> bool" where
  "truthyItem v = (case v of None \<Rightarrow> False | Some s \<Rightarrow> s \<noteq> [])"

definition itemVal :: "string option \<Rightarrow> jsval" where
  "itemVal v = (case v of None \<Rightarrow> JNull | Some s \<Rightarrow> JStr s)"

definition getUsuarioFromStorage :: "runtime \<Rightarrow> envVars \<Rightarrow> session \<Rightarrow> jsval \<times> session" where
  "getUsuarioFromStorage rt ev st =
     (case getItem st (storageKey ev ''_datos'') of
        None \<Rightarrow> (JNull, st)
      | Some usuarioData \<Rightarrow>
          if usuarioData = [] then (JNull, st)
          else (case JSON_parse rt usuarioData of
                  Some v \<Rightarrow> (v, st)
                | None \<Rightarrow> (JNull, clearStorage st)))"

text \<open>
  \<open>getUser\<close>: \<open>datos\<close> is read for \<^verbatim>\<open>persona\<close> only when it is truthy, so the read
  never throws.
\<close>

definition getUser :: "runtime \<Rightarrow> envVars \<Rightarrow> jsval \<Rightarrow> session \<Rightarrow> session" where
  "getUser rt ev usuarioParam st =
     (let (datos, st1) =
            (if truthy usuarioParam then (usuarioParam, st) else getUsuarioFromStorage rt ev st)
      in if truthy datos then
           st1\<lparr>persona := propOf datos ''persona'',
               usuario := JObj (deleteProp ''persona'' (spread datos))\<rparr>
         else st1\<lparr>persona := JNull, usuario := JNull\<rparr>)"

definition getTipoUsuario :: "envVars \<Rightarrow> jsval \<Rightarrow> session \<Rightarrow> jsval \<times> session" where
  "getTipoUsuario ev tipo_usuario_id st =
     (let tipoUsuarioIdLocal =
            (if truthy tipo_usuario_id then tipo_usuario_id
             else itemVal (getItem st (storageKey ev ''_tipo_usuario_id'')))
      in (tipoUsuarioIdLocal, st\<lparr>tipoUsuarioId := tipoUsuarioIdLocal\<rparr>))"

definition logout :: "session \<Rightarrow> session" where
  "logout st =
     (clearStorage st)\<lparr>persona := JNull, usuario := JNull, tipoUsuarioId := JNull,
                       token := None, logged := Some False\<rparr>"

text \<open>
  The \<^verbatim>\<open>try\<close> block of \<open>login\<close>: \<open>Inl\<close> is the state at the point where an exception
  is thrown (by \<^verbatim>\<open>jwtDecode\<close>, or by reading a property of \<^verbatim>\<open>null\<close> or \<^verbatim>\<open>undefined\<close>),
  \<open>Inr\<close> the state at its end.
\<close>

definition login_try :: "runtime \<Rightarrow> envVars \<Rightarrow> string \<Rightarrow> jsval \<Rightarrow> session \<Rightarrow> session + session" where
  "login_try rt ev tok usr st =
     (case jwtDecode rt tok of
        None \<Rightarrow> Inl st
      | Some decoded \<Rightarrow>
          (case getProp decoded ''data'' of
             None \<Rightarrow> Inl st
           | Some data \<Rightarrow>
               (case getProp data ''tipo_usuario_id'' of
                  None \<Rightarrow> Inl st
                | Some tipo \<Rightarrow>
                    (let usuarioData = (if truthy data then data else usr);
                         st1 = setItem (storageKey ev ''_token'') tok st;
                         st2 = setItem (storageKey ev ''_tipo_usuario_id'') (ToString tipo) st1;
                         st3 = setItem (storageKey ev ''_datos'')
                                 (ToString (JSON_stringify rt usuarioData)) st2;
                         st4 = st3\<lparr>token := Some tok, logged := Some True\<rparr>;
                         st5 = getUser rt ev usuarioData st4
                     in Inr (snd (getTipoUsuario ev tipo st5))))))"

definition login :: "runtime \<Rightarrow> envVars \<Rightarrow> string \<Rightarrow> jsval \<Rightarrow> session \<Rightarrow> session" where
  "login rt ev tok usr st =
     (if typeof usr \<noteq> ''object'' \<or> usr = JNull then st
      else (case login_try rt ev tok usr st of
              Inr st' \<Rightarrow> st'
            | Inl st' \<Rightarrow> logout st'))"

definition getLocalData :: "runtime \<Rightarrow> envVars \<Rightarrow> session \<Rightarrow> string option \<times> session" where
  "getLocalData rt ev st =
     (let tok = getItem st (storageKey ev ''_token'');
          tipo = getItem st (storageKey ev ''_tipo_usuario_id'');
          (usuarioData, st1) = getUsuarioFromStorage rt ev st
      in if truthyItem tok \<and> truthyItem tipo \<and> truthy usuarioData then
           (let st2 = getUser rt ev usuarioData st1;
                st3 = snd (getTipoUsuario ev (itemVal tipo) st2)
            in (tok, st3\<lparr>token := tok, logged := Some True\<rparr>))
         else
           (None, st1\<lparr>usuario := JNull, persona := JNull, tipoUsuarioId := JNull,
                       token := None, logged := Some False\<rparr>))"

text \<open>
  \<^verbatim>\<open>decoded.exp * 1000\<close>, \<^verbatim>\<open>new Date(n)\<close> (\<open>None\<close> is the invalid date: \<^verbatim>\<open>NaN\<close>, or a
  time beyond 8.64e15 ms) and \<^verbatim>\<open>exp >= today\<close>, where \<open>now\<close> is the clock's reading in
  milliseconds.
\<close>

fun ToNumber :: "runtime \<Rightarrow> jsval \<Rightarrow> jsval" where
  "ToNumber rt JUndefined = JNaN"
| "ToNumber rt JNull = JNum 0"
| "ToNumber rt (JBool b) = JNum (if b then 1 else 0)"
| "ToNumber rt (JNum n) = JNum n"
| "ToNumber rt JNaN = JNaN"
| "ToNumber rt (JStr s) = StringToNumber rt s"
| "ToNumber rt (JArr xs) = StringToNumber rt (ToString (JArr xs))"
| "ToNumber rt (JObj kvs) = JNaN"

definition jsTimes :: "jsval \<Rightarrow> jsval \<Rightarrow> jsval" where
  "jsTimes a b = (case (a, b) of (JNum x, JNum y) \<Rightarrow> JNum (x * y) | _ \<Rightarrow> JNaN)"

definition newDate :: "jsval \<Rightarrow> int option" where
  "newDate v =
     (case v of
        JNum n \<Rightarrow> if \<bar>n\<bar> \<le> 8640000000000000 then Some n else None
      | _ \<Rightarrow> None)"

definition dateGe :: "int option \<Rightarrow> int \<Rightarrow> bool" where
  "dateGe d now = (case d of None \<Rightarrow> False | Some t \<Rightarrow> now \<le> t)"

definition verificarToken :: "runtime \<Rightarrow> int \<Rightarrow> session \<Rightarrow> bool" where
  "verificarToken rt now st =
     (if logged st = None \<or> \<not> truthyItem (token st) then False
      else (case token st of
              None \<Rightarrow> False
            | Some tok \<Rightarrow>
                (case jwtDecode rt tok of
                   None \<Rightarrow> False
                 | Some decoded \<Rightarrow>
                     (case getProp decoded ''exp'' of
                        None \<Rightarrow> False
                      | Some e \<Rightarrow> dateGe (newDate (jsTimes (ToNumber rt e) (JNum 1000))) now))))"

definition checkLogged :: "runtime \<Rightarrow> envVars \<Rightarrow> int \<Rightarrow> jsval list \<Rightarrow> session \<Rightarrow> bool \<times> session" where
  "checkLogged rt ev now tiposUsuariosId st =
     (if TEST ev then (True, st)
      else if \<not> truthyItem (getItem st (storageKey ev ''_token'')) then (False, logout st)
      else if verificarToken rt now st then
        (let currentTipoUsuarioId = getItem st (storageKey ev ''_tipo_usuario_id'')
         in if length tiposUsuariosId > 0
            then (arrayIncludes tiposUsuariosId (parseInt (itemVal currentTipoUsuarioId)), st)
            else (True, st))
      else (False, logout st))"

subsection \<open>Sequences of calls\<close>

text \<open>
  A call of one of the five operations the hook returns, with the clock's reading
  where the operation reads the clock.
\<close>

datatype call =
    Login string jsval
  | Logout
  | GetLocalData
  | VerificarToken int
  | CheckLogged int "jsval list"

fun step :: "runtime \<Rightarrow> envVars \<Rightarrow> call \<Rightarrow> session \<Rightarrow> session" where
  "step rt ev (Login tok usr) st = login rt ev tok usr st"
| "step rt ev Logout st = logout st"
| "step rt ev GetLocalData st = snd (getLocalData rt ev st)"
| "step rt ev (VerificarToken now) st = st"
| "step rt ev (CheckLogged now ids) st = snd (checkLogged rt ev now ids st)"

definition run :: "runtime \<Rightarrow> envVars \<Rightarrow> call list \<Rightarrow> session \<Rightarrow> session" where
  "run rt ev cs st = foldl (\<lambda>s c. step rt ev c s) st cs"

text \<open>
  The states of a hook instance: the initial one over any storage, what a call makes
  of one, and one whose storage other code of the page has rewritten.
\<close>

inductive reachable :: "runtime \<Rightarrow> envVars \<Rightarrow> session \<Rightarrow> bool" for rt ev where
  reach_init: "reachable rt ev (useUser_init store)"
| reach_step: "reachable rt ev st \<Longrightarrow> reachable rt ev (step rt ev c st)"
| reach_storage: "reachable rt ev st \<Longrightarrow> reachable rt ev (st\<lparr>localStorage := store\<rparr>)"

section \<open>Predicates of the specification and sample data\<close>

text \<open>
  "Clears all in-memory state to absent/false and returns absent", said of what
  \<open>getLocalData\<close> returns: the result and the state after it.
\<close>

definition sessionAbsent :: "string option \<times> session \<Rightarrow> bool" where
  "sessionAbsent r =
     (fst r = None \<and> logged (snd r) = Some False \<and> token (snd r) = None \<and>
      usuario (snd r) = JNull \<and> persona (snd r) = JNull \<and> tipoUsuarioId (snd r) = JNull)"

text \<open>What every state of a hook instance satisfies: a token is held exactly when logged.\<close>

definition sessionInv :: "session \<Rightarrow> bool" where
  "sessionInv st = ((token st \<noteq> None) = (logged st = Some True))"

text \<open>
  Sample data for the examples: the production environment with base name \<^verbatim>\<open>app\<close>,
  without and with the test flag; a host that decodes two tokens (one with a data
  section, one without) and parses two JSON texts, and takes every other input as
  malformed (its \<open>JSON_stringify\<close> and \<open>StringToNumber\<close> are not reached by the
  examples); a storage holding the three entries; and the session \<open>getLocalData\<close>
  loads from that storage.
\<close>

definition demoEnv :: envVars where
  "demoEnv = useEnv (prodEnv (Some ''app'') None)"

definition demoTestEnv :: envVars where
  "demoTestEnv = useEnv (prodEnv (Some ''app'') (Some ''true''))"

definition demoRuntime :: runtime where
  "demoRuntime =
     \<lparr> jwtDecode = (\<lambda>t.
         if t = ''good'' then
           Some (JObj [(''exp'', JNum 2000000000), (''data'', JObj [(''tipo_usuario_id'', JNum 2)])])
         else if t = ''nodata'' then Some (JObj [(''exp'', JNum 2000000000)])
         else None),
       JSON_parse = (\<lambda>s.
         if s = ''null'' then Some JNull else if s = ''{}'' then Some (JObj []) else None),
       JSON_stringify = (\<lambda>v. if v = JObj [] then JStr ''{}'' else JUndefined),
       StringToNumber = (\<lambda>s. JNaN) \<rparr>"

definition demoStore :: "string \<Rightarrow> string \<rightharpoonup> string" where
  "demoStore datos =
     [''app_token'' \<mapsto> ''good'', ''app_tipo_usuario_id'' \<mapsto> ''2'', ''app_datos'' \<mapsto> datos]"

definition demoSession :: session where
  "demoSession =
     \<lparr> usuario = JObj [], persona = JUndefined, tipoUsuarioId = JStr ''2'',
       logged = Some True, token = Some ''good'', localStorage = demoStore ''{}'' \<rparr>"

text \<open>
  The same host, except that every token decodes to claims that expire in the year
  318857: \<^verbatim>\<open>exp\<close> is 10000000000000 seconds, beyond the last date a \<^verbatim>\<open>Date\<close> holds.
\<close>

definition farFutureRuntime :: runtime where
  "farFutureRuntime =
     demoRuntime\<lparr>jwtDecode := \<lambda>t. Some (JObj [(''exp'', JNum 10000000000000)])\<rparr>"

section \<open>Evaluating the sample data\<close>

lemma demoEnv_simps [simp]:
  "storageKey demoEnv s = ''app'' @ s" "TEST demoEnv = False"
  "storageKey demoTestEnv s = ''app'' @ s" "TEST demoTestEnv = True"
  by (simp_all add: demoEnv_def demoTestEnv_def useEnv_def prodEnv_def storageKey_def orEmpty_def
      toLowerCase_def toLowerCase_char_def)

lemma parseInt_2: "parseInt (JStr ''2'') = JNum 2"
  by (simp add: parseInt_def Let_def isWhiteSpace_def isDigit_def digitsVal_def digitVal_def)

lemma getLocalData_demo:
  "getLocalData demoRuntime demoEnv (useUser_init (demoStore ''{}'')) = (Some ''good'', demoSession)"
  by (simp add: getLocalData_def getUsuarioFromStorage_def getItem_def useUser_init_def demoStore_def
      demoRuntime_def truthyItem_def getUser_def getTipoUsuario_def itemVal_def deleteProp_def
      demoSession_def Let_def)

lemma getLocalData_null:
  "getLocalData demoRuntime demoEnv (useUser_init (demoStore ''null'')) =
     (None, (useUser_init (demoStore ''null''))\<lparr>logged := Some False\<rparr>)"
  by (simp add: getLocalData_def getUsuarioFromStorage_def getItem_def useUser_init_def demoStore_def
      demoRuntime_def truthyItem_def Let_def)

lemma checkLogged_demo:
  "checkLogged demoRuntime demoEnv 1700000000000 [JNum 1, JNum 2, JNum 3] demoSession =
     (True, demoSession)"
  by (simp add: checkLogged_def verificarToken_def getItem_def demoSession_def demoStore_def
      truthyItem_def demoRuntime_def getProp_def jsTimes_def newDate_def dateGe_def itemVal_def
      parseInt_2 arrayIncludes_def Let_def)

lemma demoSession_slots:
  "logged demoSession = Some True" "token demoSession = Some ''good''"
  "getItem demoSession ''app_token'' = Some ''good''"
  "getItem demoSession ''app_tipo_usuario_id'' = Some ''2''"
  by (simp_all add: demoSession_def demoStore_def getItem_def)

section \<open>The test flag of useEnv\<close>

lemma TEST_useEnv: "TEST (useEnv env) = (toLowerCase (orEmpty (testVar env)) = ''true'')"
  by (simp add: useEnv_def testVar_def)

lemma testVar_prodEnv: "testVar (prodEnv b t) = t"
  by (simp add: testVar_def prodEnv_def)

lemma lower_t: "toLowerCase_char c = CHR ''t'' \<longleftrightarrow> c = CHR ''t'' \<or> c = CHR ''T''"
  by (auto simp add: toLowerCase_char_def split: if_splits)

lemma lower_r: "toLowerCase_char c = CHR ''r'' \<longleftrightarrow> c = CHR ''r'' \<or> c = CHR ''R''"
  by (auto simp add: toLowerCase_char_def split: if_splits)

lemma lower_u: "toLowerCase_char c = CHR ''u'' \<longleftrightarrow> c = CHR ''u'' \<or> c = CHR ''U''"
  by (auto simp add: toLowerCase_char_def split: if_splits)

lemma lower_e: "toLowerCase_char c = CHR ''e'' \<longleftrightarrow> c = CHR ''e'' \<or> c = CHR ''E''"
  by (auto simp add: toLowerCase_char_def split: if_splits)

lemma map_eq_four:
  "map f s = [w, x, y, z] \<longleftrightarrow>
   (\<exists>a b c d. s = [a, b, c, d] \<and> f a = w \<and> f b = x \<and> f c = y \<and> f d = z)"
proof
  assume h: "map f s = [w, x, y, z]"
  then obtain a s1 where s: "s = a # s1" and a: "f a = w" and m1: "map f s1 = [x, y, z]"
    by (cases s) auto
  from m1 obtain b s2 where s1: "s1 = b # s2" and b: "f b = x" and m2: "map f s2 = [y, z]"
    by (cases s1) auto
  from m2 obtain c s3 where s2: "s2 = c # s3" and c: "f c = y" and m3: "map f s3 = [z]"
    by (cases s2) auto
  from m3 obtain d where s3: "s3 = [d]" and d: "f d = z"
    by (cases s3) auto
  show "\<exists>a b c d. s = [a, b, c, d] \<and> f a = w \<and> f b = x \<and> f c = y \<and> f d = z"
    using s s1 s2 s3 a b c d by blast
next
  assume "\<exists>a b c d. s = [a, b, c, d] \<and> f a = w \<and> f b = x \<and> f c = y \<and> f d = z"
  then show "map f s = [w, x, y, z]" by auto
qed

lemma toLowerCase_true_iff:
  "toLowerCase s = ''true'' \<longleftrightarrow>
   (\<exists>a b c d. s = [a, b, c, d] \<and> (a = CHR ''t'' \<or> a = CHR ''T'') \<and>
      (b = CHR ''r'' \<or> b = CHR ''R'') \<and> (c = CHR ''u'' \<or> c = CHR ''U'') \<and>
      (d = CHR ''e'' \<or> d = CHR ''E''))"
  unfolding toLowerCase_def map_eq_four lower_t lower_r lower_u lower_e ..

lemma lower_True: "toLowerCase ''True'' = ''true''"
  by (simp add: toLowerCase_def toLowerCase_char_def)

lemma lower_TRUE: "toLowerCase ''TRUE'' = ''true''"
  by (simp add: toLowerCase_def toLowerCase_char_def)

text \<open>
  C1, as amended: \<open>TEST\<close> is true exactly when the variable of the selected namespace is
  set and its value, lowercased, is \<^verbatim>\<open>true\<close>, that is when it is one of the sixteen
  spellings of \<^verbatim>\<open>true\<close> in upper and lower case. So \<^verbatim>\<open>True\<close> yields true; \<^verbatim>\<open>1\<close>, the
  empty string and a missing value yield false.
\<close>

theorem TEST_iff_lowercase_true:
  "TEST (useEnv env) = (\<exists>s. testVar env = Some s \<and> toLowerCase s = ''true'') \<and>
   TEST (useEnv env) =
     (\<exists>a b c d. testVar env = Some [a, b, c, d] \<and> (a = CHR ''t'' \<or> a = CHR ''T'') \<and>
        (b = CHR ''r'' \<or> b = CHR ''R'') \<and> (c = CHR ''u'' \<or> c = CHR ''U'') \<and>
        (d = CHR ''e'' \<or> d = CHR ''E'')) \<and>
   (testVar env = Some ''True'' \<longrightarrow> TEST (useEnv env)) \<and>
   (testVar env = Some ''1'' \<or> testVar env = Some [] \<or> testVar env = None
      \<longrightarrow> \<not> TEST (useEnv env))"
proof -
  have a: "TEST (useEnv env) = (\<exists>s. testVar env = Some s \<and> toLowerCase s = ''true'')"
    by (cases "testVar env") (simp_all add: TEST_useEnv orEmpty_def toLowerCase_def)
  have b: "TEST (useEnv env) =
     (\<exists>a b c d. testVar env = Some [a, b, c, d] \<and> (a = CHR ''t'' \<or> a = CHR ''T'') \<and>
        (b = CHR ''r'' \<or> b = CHR ''R'') \<and> (c = CHR ''u'' \<or> c = CHR ''U'') \<and>
        (d = CHR ''e'' \<or> d = CHR ''E''))"
    unfolding a toLowerCase_true_iff by blast
  have c: "testVar env = Some ''True'' \<longrightarrow> TEST (useEnv env)"
    by (simp add: TEST_useEnv orEmpty_def lower_True)
  have d: "testVar env = Some ''1'' \<or> testVar env = Some [] \<or> testVar env = None
      \<longrightarrow> \<not> TEST (useEnv env)"
    by (auto simp add: TEST_useEnv orEmpty_def toLowerCase_def)
  from a b c d show ?thesis by (intro conjI)
qed

text \<open>
  C1 as stated fails: with \<^verbatim>\<open>VITE_TEST\<close> set to \<^verbatim>\<open>True\<close>, which the claim lists among
  the values that yield false, \<open>TEST\<close> is true.
\<close>

theorem TEST_True_counterexample:
  "testVar (prodEnv None (Some ''True'')) = Some ''True'' \<and>
   TEST (useEnv (prodEnv None (Some ''True''))) = True"
  by (simp add: TEST_useEnv testVar_prodEnv orEmpty_def lower_True)

theorem TEST_iff_lowercase_true_witness:
  "testVar (prodEnv None (Some ''TRUE'')) = Some ''TRUE'' \<and> toLowerCase ''TRUE'' = ''true'' \<and>
   TEST (useEnv (prodEnv None (Some ''TRUE'')))"
proof -
  have "TEST (useEnv (prodEnv None (Some ''TRUE''))) =
        (\<exists>s. testVar (prodEnv None (Some ''TRUE'')) = Some s \<and> toLowerCase s = ''true'')"
    using TEST_iff_lowercase_true [of "prodEnv None (Some ''TRUE'')"] by (rule conjunct1)
  then show ?thesis by (simp add: testVar_prodEnv lower_TRUE)
qed

section \<open>logout and the two ways login gives up\<close>

lemma logout_const:
  "logout st = \<lparr> usuario = JNull, persona = JNull, tipoUsuarioId = JNull,
       logged = Some False, token = None, localStorage = Map.empty \<rparr>"
  by (simp add: logout_def clearStorage_def)

text \<open>
  C7: after \<open>logout\<close>, from any state, the storage is empty, so the token, the user-type
  id and the serialized user record are absent from it; \<open>logged\<close> is false, not unknown;
  and the user, person, token and user-type slots are absent.
\<close>

theorem logout_clears_everything:
  "localStorage (logout st) = Map.empty \<and>
   getItem (logout st) (storageKey ev ''_token'') = None \<and>
   getItem (logout st) (storageKey ev ''_tipo_usuario_id'') = None \<and>
   getItem (logout st) (storageKey ev ''_datos'') = None \<and>
   logged (logout st) = Some False \<and>
   usuario (logout st) = JNull \<and> persona (logout st) = JNull \<and>
   token (logout st) = None \<and> tipoUsuarioId (logout st) = JNull"
  by (simp add: logout_def clearStorage_def getItem_def)

theorem logout_clears_everything_witness:
  "getItem demoSession (storageKey demoEnv ''_token'') = Some ''good'' \<and>
   logged demoSession = Some True \<and>
   getItem (logout demoSession) (storageKey demoEnv ''_token'') = None \<and>
   logged (logout demoSession) = Some False \<and> token (logout demoSession) = None"
  using logout_clears_everything [of demoSession demoEnv]
  by (simp add: demoSession_slots)

text \<open>
  C6: \<open>login\<close> with a \<^verbatim>\<open>usuario\<close> that is not a non-null object (\<^verbatim>\<open>typeof\<close> other than
  \<^verbatim>\<open>object\<close>, or \<^verbatim>\<open>null\<close>) returns the state it was given: no slot and no storage entry
  changes. The operation has no exceptional result.
\<close>

theorem login_rejects_non_record:
  "\<not> (typeof usr = ''object'' \<and> usr \<noteq> JNull) \<Longrightarrow> login rt ev tok usr st = st"
  by (auto simp add: login_def)

theorem login_rejects_non_record_witness:
  "\<not> (typeof (JStr ''not-an-object'') = ''object'' \<and> JStr ''not-an-object'' \<noteq> JNull) \<and>
   login demoRuntime demoEnv ''good'' (JStr ''not-an-object'') demoSession = demoSession \<and>
   login demoRuntime demoEnv ''good'' JNull demoSession = demoSession"
proof -
  have a: "\<not> (typeof (JStr ''not-an-object'') = ''object'' \<and> JStr ''not-an-object'' \<noteq> JNull)"
    by simp
  have b: "\<not> (typeof JNull = ''object'' \<and> JNull \<noteq> JNull)" by simp
  have c: "login demoRuntime demoEnv ''good'' (JStr ''not-an-object'') demoSession = demoSession"
    using a by (rule login_rejects_non_record)
  have d: "login demoRuntime demoEnv ''good'' JNull demoSession = demoSession"
    using b by (rule login_rejects_non_record)
  from a c d show ?thesis by (intro conjI)
qed

text \<open>
  C5: when \<^verbatim>\<open>jwtDecode\<close> throws on the token and \<^verbatim>\<open>usuario\<close> is a non-null object,
  \<open>login\<close> ends, from every prior state, in the state \<open>logout\<close> ends in: the storage is
  empty, \<open>logged\<close> is false, and the token, user, person and user-type slots are absent.
\<close>

theorem failed_login_is_logout:
  "typeof usr = ''object'' \<Longrightarrow> usr \<noteq> JNull \<Longrightarrow> jwtDecode rt tok = None \<Longrightarrow>
   login rt ev tok usr st = logout st \<and>
   localStorage (login rt ev tok usr st) = Map.empty \<and>
   logged (login rt ev tok usr st) = Some False \<and>
   token (login rt ev tok usr st) = None \<and>
   usuario (login rt ev tok usr st) = JNull \<and>
   persona (login rt ev tok usr st) = JNull \<and>
   tipoUsuarioId (login rt ev tok usr st) = JNull"
  by (simp add: login_def login_try_def logout_const)

theorem failed_login_is_logout_witness:
  "typeof (JObj [(''name'', JStr ''A'')]) = ''object'' \<and> JObj [(''name'', JStr ''A'')] \<noteq> JNull \<and>
   jwtDecode demoRuntime ''garbled'' = None \<and>
   logged demoSession = Some True \<and> token demoSession = Some ''good'' \<and>
   getItem demoSession ''app_token'' = Some ''good'' \<and>
   login demoRuntime demoEnv ''garbled'' (JObj [(''name'', JStr ''A'')]) demoSession =
     logout demoSession \<and>
   localStorage (login demoRuntime demoEnv ''garbled'' (JObj [(''name'', JStr ''A'')]) demoSession) =
     Map.empty \<and>
   logged (login demoRuntime demoEnv ''garbled'' (JObj [(''name'', JStr ''A'')]) demoSession) =
     Some False \<and>
   token (login demoRuntime demoEnv ''garbled'' (JObj [(''name'', JStr ''A'')]) demoSession) = None"
proof -
  have a: "typeof (JObj [(''name'', JStr ''A'')]) = ''object''" by simp
  have b: "JObj [(''name'', JStr ''A'')] \<noteq> JNull" by simp
  have c: "jwtDecode demoRuntime ''garbled'' = None" by (simp add: demoRuntime_def)
  have d: "login demoRuntime demoEnv ''garbled'' (JObj [(''name'', JStr ''A'')]) demoSession =
       logout demoSession \<and>
     localStorage (login demoRuntime demoEnv ''garbled'' (JObj [(''name'', JStr ''A'')]) demoSession) =
       Map.empty \<and>
     logged (login demoRuntime demoEnv ''garbled'' (JObj [(''name'', JStr ''A'')]) demoSession) =
       Some False \<and>
     token (login demoRuntime demoEnv ''garbled'' (JObj [(''name'', JStr ''A'')]) demoSession) = None \<and>
     usuario (login demoRuntime demoEnv ''garbled'' (JObj [(''name'', JStr ''A'')]) demoSession) =
       JNull \<and>
     persona (login demoRuntime demoEnv ''garbled'' (JObj [(''name'', JStr ''A'')]) demoSession) =
       JNull \<and>
     tipoUsuarioId (login demoRuntime demoEnv ''garbled'' (JObj [(''name'', JStr ''A'')]) demoSession) =
       JNull"
    using a b c by (rule failed_login_is_logout)
  from a b c d demoSession_slots(1,2,3) show ?thesis by blast
qed

text \<open>
  What \<open>login\<close> does once the token decodes. A data section that is \<^verbatim>\<open>null\<close> or
  missing makes the read of \<^verbatim>\<open>decoded.data.tipo_usuario_id\<close> throw, and \<open>login\<close> ends
  as \<open>logout\<close>; otherwise the user data is the data section when it is truthy and
  \<^verbatim>\<open>usuario\<close> when it is \<^verbatim>\<open>0\<close>, \<^verbatim>\<open>""\<close>, \<^verbatim>\<open>false\<close> or \<^verbatim>\<open>NaN\<close>.
\<close>

lemma login_data_absent:
  assumes "typeof usr = ''object''" "usr \<noteq> JNull" "jwtDecode rt tok = Some c"
    "propOf c ''data'' = JUndefined \<or> propOf c ''data'' = JNull"
  shows "login rt ev tok usr st = logout st"
  using assms by (auto simp add: login_def login_try_def getProp_def)

lemma storageKey_inject: "(storageKey ev a = storageKey ev b) = (a = b)"
  by (simp add: storageKey_def)

lemma login_data_present:
  assumes "typeof usr = ''object''" "usr \<noteq> JNull" "jwtDecode rt tok = Some c"
    "getProp c ''data'' = Some d" "d \<noteq> JNull" "d \<noteq> JUndefined"
  shows "logged (login rt ev tok usr st) = Some True \<and>
         token (login rt ev tok usr st) = Some tok \<and>
         tipoUsuarioId (login rt ev tok usr st) =
           (if truthy (propOf d ''tipo_usuario_id'') then propOf d ''tipo_usuario_id''
            else JStr (ToString (propOf d ''tipo_usuario_id''))) \<and>
         persona (login rt ev tok usr st) = propOf (if truthy d then d else usr) ''persona'' \<and>
         usuario (login rt ev tok usr st) =
           JObj (deleteProp ''persona'' (spread (if truthy d then d else usr))) \<and>
         getItem (login rt ev tok usr st) (storageKey ev ''_token'') = Some tok \<and>
         getItem (login rt ev tok usr st) (storageKey ev ''_tipo_usuario_id'') =
           Some (ToString (propOf d ''tipo_usuario_id'')) \<and>
         getItem (login rt ev tok usr st) (storageKey ev ''_datos'') =
           Some (ToString (JSON_stringify rt (if truthy d then d else usr)))"
proof -
  have u: "truthy usr" using assms(1,2) by (cases usr) simp_all
  show ?thesis
    using assms u
    by (simp add: login_def login_try_def getProp_def Let_def getUser_def getTipoUsuario_def
        setItem_def getItem_def storageKey_inject itemVal_def)
qed

text \<open>
  C2 at a token without a data section: \<^verbatim>\<open>jwtDecode\<close> succeeds, yet \<open>login\<close> does not
  fall back to \<^verbatim>\<open>usuario\<close>; it ends as \<open>logout\<close>, with no user, \<open>logged\<close> false and
  the storage empty.
\<close>

theorem login_without_data_section:
  "jwtDecode demoRuntime ''nodata'' = Some (JObj [(''exp'', JNum 2000000000)]) \<and>
   login demoRuntime demoEnv ''nodata'' (JObj [(''name'', JStr ''A'')]) demoSession =
     logout demoSession \<and>
   usuario (login demoRuntime demoEnv ''nodata'' (JObj [(''name'', JStr ''A'')]) demoSession) =
     JNull \<and>
   logged (login demoRuntime demoEnv ''nodata'' (JObj [(''name'', JStr ''A'')]) demoSession) =
     Some False \<and>
   localStorage (login demoRuntime demoEnv ''nodata'' (JObj [(''name'', JStr ''A'')]) demoSession) =
     Map.empty"
proof -
  have d: "jwtDecode demoRuntime ''nodata'' = Some (JObj [(''exp'', JNum 2000000000)])"
    by (simp add: demoRuntime_def)
  have "login demoRuntime demoEnv ''nodata'' (JObj [(''name'', JStr ''A'')]) demoSession =
     logout demoSession"
    by (rule login_data_absent [OF _ _ d]) simp_all
  with d show ?thesis by (simp add: logout_const)
qed

theorem login_without_data_section_witness:
  "logged demoSession = Some True \<and>
   logged (login demoRuntime demoEnv ''nodata'' (JObj [(''name'', JStr ''A'')]) demoSession) =
     Some False"
proof -
  have "logged (login demoRuntime demoEnv ''nodata'' (JObj [(''name'', JStr ''A'')]) demoSession) =
     Some False"
    using login_without_data_section by blast
  then show ?thesis by (simp add: demoSession_slots)
qed

section \<open>verificarToken\<close>

lemma verificarToken_init: "\<not> verificarToken rt now (useUser_init store)"
  by (simp add: verificarToken_def useUser_init_def)

lemma verificarToken_true:
  "verificarToken rt now st \<Longrightarrow>
   logged st \<noteq> None \<and>
   (\<exists>t c e ms. token st = Some t \<and> t \<noteq> [] \<and> jwtDecode rt t = Some c \<and>
      getProp c ''exp'' = Some e \<and> jsTimes (ToNumber rt e) (JNum 1000) = JNum ms \<and>
      \<bar>ms\<bar> \<le> 8640000000000000 \<and> now \<le> ms)"
  by (auto simp add: verificarToken_def truthyItem_def newDate_def dateGe_def
      split: option.splits if_splits jsval.splits)

lemma verificarToken_holds:
  assumes "logged st \<noteq> None" "token st = Some t" "t \<noteq> []" "jwtDecode rt t = Some c"
    "getProp c ''exp'' = Some e" "jsTimes (ToNumber rt e) (JNum 1000) = JNum ms"
    "\<bar>ms\<bar> \<le> 8640000000000000" "now \<le> ms"
  shows "verificarToken rt now st"
  using assms by (simp add: verificarToken_def truthyItem_def newDate_def dateGe_def)

lemma verificarToken_numeric:
  assumes "logged st \<noteq> None" "token st = Some t" "t \<noteq> []" "jwtDecode rt t = Some c"
    "getProp c ''exp'' = Some (JNum e)"
  shows "verificarToken rt now st = (\<bar>e * 1000\<bar> \<le> 8640000000000000 \<and> now \<le> e * 1000)"
  using assms
  by (auto simp add: verificarToken_def truthyItem_def jsTimes_def newDate_def dateGe_def)

lemma verificarToken_no_date:
  assumes "token st = Some t" "jwtDecode rt t = Some c"
    "c = JNull \<or> c = JUndefined \<or> propOf c ''exp'' = JUndefined \<or> propOf c ''exp'' = JNaN \<or>
     (\<exists>kvs. propOf c ''exp'' = JObj kvs)"
  shows "\<not> verificarToken rt now st"
  using assms
  by (auto simp add: verificarToken_def getProp_def jsTimes_def newDate_def dateGe_def)

text \<open>
  C4, as amended. \<open>verificarToken\<close> is true exactly when \<open>logged\<close> is known, a non-empty
  token is held, \<^verbatim>\<open>jwtDecode\<close> returns claims that are not \<^verbatim>\<open>null\<close>, and their \<^verbatim>\<open>exp\<close>,
  converted to a number and multiplied by 1000, is a time a \<^verbatim>\<open>Date\<close> holds (at most
  8.64e15 ms from the epoch) at or after the clock's reading. So it is false when
  \<open>logged\<close> is unknown or no token is held, and when \<^verbatim>\<open>jwtDecode\<close> throws; for a numeric
  \<^verbatim>\<open>exp\<close> it is true exactly when \<^verbatim>\<open>exp * 1000\<close> is within the range of \<^verbatim>\<open>Date\<close> and at or
  after the clock's reading; and it is false when the claims are \<^verbatim>\<open>null\<close> or their
  \<^verbatim>\<open>exp\<close> is missing, \<^verbatim>\<open>NaN\<close> or an object.
\<close>

theorem verificarToken_spec:
  "verificarToken rt now st =
     (logged st \<noteq> None \<and>
      (\<exists>t c e ms. token st = Some t \<and> t \<noteq> [] \<and> jwtDecode rt t = Some c \<and>
         getProp c ''exp'' = Some e \<and> jsTimes (ToNumber rt e) (JNum 1000) = JNum ms \<and>
         \<bar>ms\<bar> \<le> 8640000000000000 \<and> now \<le> ms)) \<and>
   (logged st = None \<or> token st = None \<longrightarrow> \<not> verificarToken rt now st) \<and>
   (token st = Some t \<and> jwtDecode rt t = None \<longrightarrow> \<not> verificarToken rt now st) \<and>
   (logged st \<noteq> None \<and> token st = Some t \<and> t \<noteq> [] \<and> jwtDecode rt t = Some c \<and>
       getProp c ''exp'' = Some (JNum e)
      \<longrightarrow> verificarToken rt now st = (\<bar>e * 1000\<bar> \<le> 8640000000000000 \<and> now \<le> e * 1000)) \<and>
   (token st = Some t \<and> jwtDecode rt t = Some c \<and>
       (c = JNull \<or> c = JUndefined \<or> propOf c ''exp'' = JUndefined \<or> propOf c ''exp'' = JNaN \<or>
        (\<exists>kvs. propOf c ''exp'' = JObj kvs))
      \<longrightarrow> \<not> verificarToken rt now st)"
proof -
  have a: "verificarToken rt now st =
     (logged st \<noteq> None \<and>
      (\<exists>t c e ms. token st = Some t \<and> t \<noteq> [] \<and> jwtDecode rt t = Some c \<and>
         getProp c ''exp'' = Some e \<and> jsTimes (ToNumber rt e) (JNum 1000) = JNum ms \<and>
         \<bar>ms\<bar> \<le> 8640000000000000 \<and> now \<le> ms))"
    using verificarToken_true [of rt now st] verificarToken_holds [of st _ rt _ _ _ now]
    by blast
  have b: "logged st = None \<or> token st = None \<longrightarrow> \<not> verificarToken rt now st"
    by (auto simp add: verificarToken_def truthyItem_def)
  have c: "token st = Some t \<and> jwtDecode rt t = None \<longrightarrow> \<not> verificarToken rt now st"
    by (auto simp add: verificarToken_def)
  have d: "logged st \<noteq> None \<and> token st = Some t \<and> t \<noteq> [] \<and> jwtDecode rt t = Some c \<and>
       getProp c ''exp'' = Some (JNum e)
      \<longrightarrow> verificarToken rt now st = (\<bar>e * 1000\<bar> \<le> 8640000000000000 \<and> now \<le> e * 1000)"
    using verificarToken_numeric [of st t rt c e now] by blast
  have e: "token st = Some t \<and> jwtDecode rt t = Some c \<and>
       (c = JNull \<or> c = JUndefined \<or> propOf c ''exp'' = JUndefined \<or> propOf c ''exp'' = JNaN \<or>
        (\<exists>kvs. propOf c ''exp'' = JObj kvs))
      \<longrightarrow> \<not> verificarToken rt now st"
    using verificarToken_no_date [of st t rt c now] by blast
  from a b c d e show ?thesis by (intro conjI)
qed

text \<open>
  C4 as stated fails: \<open>logged\<close> is true, a token is held and decodes, its expiry of
  10000000000000 seconds is after the clock's reading, and \<open>verificarToken\<close> is false,
  since that time is beyond the range of \<^verbatim>\<open>Date\<close>.
\<close>

theorem verificarToken_far_future_counterexample:
  "logged demoSession = Some True \<and> token demoSession = Some ''good'' \<and>
   jwtDecode farFutureRuntime ''good'' = Some (JObj [(''exp'', JNum 10000000000000)]) \<and>
   getProp (JObj [(''exp'', JNum 10000000000000)]) ''exp'' = Some (JNum 10000000000000) \<and>
   (1700000000000 :: int) \<le> 10000000000000 * 1000 \<and>
   \<not> verificarToken farFutureRuntime 1700000000000 demoSession"
  by (simp add: demoSession_slots farFutureRuntime_def verificarToken_def truthyItem_def
      getProp_def jsTimes_def newDate_def dateGe_def)

theorem verificarToken_spec_witness:
  "logged (useUser_init Map.empty) = None \<and>
   \<not> verificarToken demoRuntime 1700000000000 (useUser_init Map.empty) \<and>
   logged demoSession \<noteq> None \<and> token demoSession = Some ''good'' \<and>
   getProp (JObj [(''exp'', JNum 2000000000), (''data'', JObj [(''tipo_usuario_id'', JNum 2)])])
     ''exp'' = Some (JNum 2000000000) \<and>
   verificarToken demoRuntime 1700000000000 demoSession \<and>
   \<not> verificarToken demoRuntime 2000000000001 demoSession \<and>
   jwtDecode demoRuntime ''garbled'' = None \<and>
   \<not> verificarToken demoRuntime 1700000000000 (demoSession\<lparr>token := Some ''garbled''\<rparr>) \<and>
   jwtDecode demoRuntime ''nodata'' = Some (JObj [(''exp'', JNum 2000000000)]) \<and>
   verificarToken demoRuntime 1700000000000 (demoSession\<lparr>token := Some ''nodata''\<rparr>) \<and>
   propOf (JObj [(''data'', JNull)]) ''exp'' = JUndefined \<and>
   \<not> verificarToken (demoRuntime\<lparr>jwtDecode := \<lambda>t. Some (JObj [(''data'', JNull)])\<rparr>)
        1700000000000 demoSession"
proof -
  have a: "logged (useUser_init Map.empty) = None" by (simp add: useUser_init_def)
  have b: "logged demoSession \<noteq> None" "token demoSession = Some ''good''" "''good'' \<noteq> []"
    "jwtDecode demoRuntime ''good'' =
       Some (JObj [(''exp'', JNum 2000000000), (''data'', JObj [(''tipo_usuario_id'', JNum 2)])])"
    "getProp (JObj [(''exp'', JNum 2000000000), (''data'', JObj [(''tipo_usuario_id'', JNum 2)])])
       ''exp'' = Some (JNum 2000000000)"
    by (simp_all add: demoSession_slots demoRuntime_def getProp_def)
  have g: "jwtDecode demoRuntime ''garbled'' = None"
    "jwtDecode demoRuntime ''nodata'' = Some (JObj [(''exp'', JNum 2000000000)])"
    "getProp (JObj [(''exp'', JNum 2000000000)]) ''exp'' = Some (JNum 2000000000)"
    "propOf (JObj [(''data'', JNull)]) ''exp'' = JUndefined"
    by (simp_all add: demoRuntime_def getProp_def)
  have c: "verificarToken demoRuntime 1700000000000 demoSession"
    using b verificarToken_spec [where st = demoSession and rt = demoRuntime
        and now = 1700000000000 and t = "''good''" and e = 2000000000
        and c = "JObj [(''exp'', JNum 2000000000), (''data'', JObj [(''tipo_usuario_id'', JNum 2)])]",
        THEN conjunct2, THEN conjunct2, THEN conjunct2, THEN conjunct1]
    by simp
  have d: "\<not> verificarToken demoRuntime 2000000000001 demoSession"
    using b verificarToken_spec [where st = demoSession and rt = demoRuntime
        and now = 2000000000001 and t = "''good''" and e = 2000000000
        and c = "JObj [(''exp'', JNum 2000000000), (''data'', JObj [(''tipo_usuario_id'', JNum 2)])]",
        THEN conjunct2, THEN conjunct2, THEN conjunct2, THEN conjunct1]
    by simp
  have e: "\<not> verificarToken demoRuntime 1700000000000 (useUser_init Map.empty)"
    using a verificarToken_spec [where st = "useUser_init Map.empty" and rt = demoRuntime
        and now = 1700000000000,
        THEN conjunct2, THEN conjunct1]
    by simp
  have f: "\<not> verificarToken demoRuntime 1700000000000 (demoSession\<lparr>token := Some ''garbled''\<rparr>)"
    using g(1) verificarToken_spec [where st = "demoSession\<lparr>token := Some ''garbled''\<rparr>"
        and rt = demoRuntime and now = 1700000000000 and t = "''garbled''",
        THEN conjunct2, THEN conjunct2, THEN conjunct1]
    by simp
  have h: "verificarToken demoRuntime 1700000000000 (demoSession\<lparr>token := Some ''nodata''\<rparr>)"
    using b(1) g(2,3) verificarToken_spec [where st = "demoSession\<lparr>token := Some ''nodata''\<rparr>"
        and rt = demoRuntime and now = 1700000000000 and t = "''nodata''" and e = 2000000000
        and c = "JObj [(''exp'', JNum 2000000000)]",
        THEN conjunct2, THEN conjunct2, THEN conjunct2, THEN conjunct1]
    by simp
  have i: "\<not> verificarToken (demoRuntime\<lparr>jwtDecode := \<lambda>t. Some (JObj [(''data'', JNull)])\<rparr>)
        1700000000000 demoSession"
    using b(2) g(4)
      verificarToken_spec [where st = demoSession
        and rt = "demoRuntime\<lparr>jwtDecode := \<lambda>t. Some (JObj [(''data'', JNull)])\<rparr>"
        and now = 1700000000000 and t = "''good''" and c = "JObj [(''data'', JNull)]",
        THEN conjunct2, THEN conjunct2, THEN conjunct2, THEN conjunct2]
    by simp
  from a b(1,2,5) c d e f g(1,2,4) h i show ?thesis by (intro conjI)
qed

section \<open>getLocalData\<close>

lemma getLocalData_parse_failure:
  assumes "getItem st (storageKey ev ''_datos'') = Some d" "d \<noteq> []" "JSON_parse rt d = None"
  shows "sessionAbsent (getLocalData rt ev st) \<and>
         localStorage (snd (getLocalData rt ev st)) = Map.empty"
  using assms
  by (simp add: getLocalData_def getUsuarioFromStorage_def sessionAbsent_def clearStorage_def
      Let_def)

lemma getLocalData_missing:
  assumes "\<not> truthyItem (getItem st (storageKey ev ''_token'')) \<or>
           \<not> truthyItem (getItem st (storageKey ev ''_tipo_usuario_id'')) \<or>
           \<not> truthyItem (getItem st (storageKey ev ''_datos''))"
  shows "sessionAbsent (getLocalData rt ev st)"
proof -
  obtain v st1 where g: "getUsuarioFromStorage rt ev st = (v, st1)"
    by (cases "getUsuarioFromStorage rt ev st")
  have "\<not> truthyItem (getItem st (storageKey ev ''_datos'')) \<Longrightarrow> \<not> truthy v"
    using g by (auto simp add: getUsuarioFromStorage_def truthyItem_def split: option.splits)
  with assms g show ?thesis
    by (auto simp add: getLocalData_def sessionAbsent_def Let_def)
qed

lemma getLocalData_keeps_storage:
  assumes "\<not> truthyItem (getItem st (storageKey ev ''_datos''))"
  shows "localStorage (snd (getLocalData rt ev st)) = localStorage st"
  using assms
  by (auto simp add: getLocalData_def getUsuarioFromStorage_def truthyItem_def Let_def
      split: option.splits)

lemma getLocalData_parsed:
  assumes "getItem st (storageKey ev ''_token'') = Some t" "t \<noteq> []"
    "getItem st (storageKey ev ''_tipo_usuario_id'') = Some i" "i \<noteq> []"
    "getItem st (storageKey ev ''_datos'') = Some d" "d \<noteq> []" "JSON_parse rt d = Some v"
  shows "if truthy v then
           getLocalData rt ev st =
             (Some t, st\<lparr>persona := propOf v ''persona'',
                         usuario := JObj (deleteProp ''persona'' (spread v)),
                         tipoUsuarioId := JStr i, token := Some t, logged := Some True\<rparr>)
         else sessionAbsent (getLocalData rt ev st) \<and>
              localStorage (snd (getLocalData rt ev st)) = localStorage st"
  using assms
  by (simp add: getLocalData_def getUsuarioFromStorage_def truthyItem_def Let_def getUser_def
      getTipoUsuario_def itemVal_def sessionAbsent_def)

text \<open>
  C8, as amended. For every storage content:
  \<^item> if the record entry is non-empty and \<^verbatim>\<open>JSON.parse\<close> throws on it, \<open>getLocalData\<close>
    empties the whole storage, clears the in-memory state to absent/false and returns
    absent, whatever the other two entries hold;
  \<^item> if one of the three entries is missing or is the empty string, it clears the
    in-memory state to absent/false and returns absent, and when it is the record entry
    that is missing or empty the storage is left as it was;
  \<^item> if the three entries are present and non-empty and the record parses to a value
    \<open>v\<close>: when \<open>v\<close> is truthy, the person is \<open>v\<close>'s \<^verbatim>\<open>persona\<close>, the user is \<open>v\<close> without
    it, the user-type slot is the stored id, the token is held, \<open>logged\<close> is true and the
    token is returned; when \<open>v\<close> is falsy (\<^verbatim>\<open>null\<close>, \<^verbatim>\<open>false\<close>, \<^verbatim>\<open>0\<close>, \<^verbatim>\<open>""\<close>), it clears
    the in-memory state to absent/false, returns absent and leaves the storage as it was.
\<close>

theorem getLocalData_cases:
  "(getItem st (storageKey ev ''_datos'') = Some d \<and> d \<noteq> [] \<and> JSON_parse rt d = None \<longrightarrow>
        sessionAbsent (getLocalData rt ev st) \<and>
        localStorage (snd (getLocalData rt ev st)) = Map.empty) \<and>
   (\<not> truthyItem (getItem st (storageKey ev ''_token'')) \<or>
    \<not> truthyItem (getItem st (storageKey ev ''_tipo_usuario_id'')) \<or>
    \<not> truthyItem (getItem st (storageKey ev ''_datos'')) \<longrightarrow>
        sessionAbsent (getLocalData rt ev st)) \<and>
   (\<not> truthyItem (getItem st (storageKey ev ''_datos'')) \<longrightarrow>
        localStorage (snd (getLocalData rt ev st)) = localStorage st) \<and>
   (getItem st (storageKey ev ''_token'') = Some t \<and> t \<noteq> [] \<and>
    getItem st (storageKey ev ''_tipo_usuario_id'') = Some i \<and> i \<noteq> [] \<and>
    getItem st (storageKey ev ''_datos'') = Some d \<and> d \<noteq> [] \<and> JSON_parse rt d = Some v \<longrightarrow>
        (if truthy v then
           getLocalData rt ev st =
             (Some t, st\<lparr>persona := propOf v ''persona'',
                         usuario := JObj (deleteProp ''persona'' (spread v)),
                         tipoUsuarioId := JStr i, token := Some t, logged := Some True\<rparr>)
         else sessionAbsent (getLocalData rt ev st) \<and>
              localStorage (snd (getLocalData rt ev st)) = localStorage st))"
  using getLocalData_parse_failure [of st ev d rt] getLocalData_missing [of st ev rt]
    getLocalData_keeps_storage [of st ev rt] getLocalData_parsed [of st ev t i d rt v]
  by blast

text \<open>
  C8 as stated fails: the three entries are present, the record \<^verbatim>\<open>null\<close> parses, and
  \<open>getLocalData\<close> returns absent with \<open>logged\<close> false, the storage left as it was.
\<close>

theorem getLocalData_null_record_counterexample:
  "getItem (useUser_init (demoStore ''null'')) (storageKey demoEnv ''_token'') = Some ''good'' \<and>
   getItem (useUser_init (demoStore ''null'')) (storageKey demoEnv ''_tipo_usuario_id'') =
     Some ''2'' \<and>
   getItem (useUser_init (demoStore ''null'')) (storageKey demoEnv ''_datos'') = Some ''null'' \<and>
   JSON_parse demoRuntime ''null'' = Some JNull \<and>
   fst (getLocalData demoRuntime demoEnv (useUser_init (demoStore ''null''))) = None \<and>
   logged (snd (getLocalData demoRuntime demoEnv (useUser_init (demoStore ''null'')))) =
     Some False \<and>
   localStorage (snd (getLocalData demoRuntime demoEnv (useUser_init (demoStore ''null'')))) =
     demoStore ''null''"
  by (simp add: getLocalData_null)
     (simp add: getItem_def useUser_init_def demoStore_def demoRuntime_def)

theorem getLocalData_cases_witness:
  "getItem (useUser_init (demoStore ''{}'')) (storageKey demoEnv ''_datos'') = Some ''{}'' \<and>
   JSON_parse demoRuntime ''{}'' = Some (JObj []) \<and>
   getLocalData demoRuntime demoEnv (useUser_init (demoStore ''{}'')) =
     (Some ''good'', demoSession) \<and>
   getItem (useUser_init (demoStore ''{bad'')) (storageKey demoEnv ''_datos'') = Some ''{bad'' \<and>
   JSON_parse demoRuntime ''{bad'' = None \<and>
   sessionAbsent (getLocalData demoRuntime demoEnv (useUser_init (demoStore ''{bad''))) \<and>
   localStorage (snd (getLocalData demoRuntime demoEnv (useUser_init (demoStore ''{bad'')))) =
     Map.empty"
proof -
  have a: "getItem (useUser_init (demoStore ''{}'')) (storageKey demoEnv ''_token'') = Some ''good''"
    "''good'' \<noteq> []"
    "getItem (useUser_init (demoStore ''{}'')) (storageKey demoEnv ''_tipo_usuario_id'') = Some ''2''"
    "''2'' \<noteq> []"
    "getItem (useUser_init (demoStore ''{}'')) (storageKey demoEnv ''_datos'') = Some ''{}''"
    "''{}'' \<noteq> []" "JSON_parse demoRuntime ''{}'' = Some (JObj [])"
    by (simp_all add: getItem_def useUser_init_def demoStore_def demoRuntime_def)
  have b: "getItem (useUser_init (demoStore ''{bad'')) (storageKey demoEnv ''_datos'') = Some ''{bad''"
    "''{bad'' \<noteq> []" "JSON_parse demoRuntime ''{bad'' = None"
    by (simp_all add: getItem_def useUser_init_def demoStore_def demoRuntime_def)
  have c: "getLocalData demoRuntime demoEnv (useUser_init (demoStore ''{}'')) =
             (Some ''good'', (useUser_init (demoStore ''{}''))\<lparr>persona := propOf (JObj []) ''persona'',
                usuario := JObj (deleteProp ''persona'' (spread (JObj []))),
                tipoUsuarioId := JStr ''2'', token := Some ''good'', logged := Some True\<rparr>)"
    using a getLocalData_cases [of "useUser_init (demoStore ''{}'')" demoEnv "''{}''" demoRuntime
        "''good''" "''2''" "JObj []"]
    by simp
  have d: "sessionAbsent (getLocalData demoRuntime demoEnv (useUser_init (demoStore ''{bad''))) \<and>
     localStorage (snd (getLocalData demoRuntime demoEnv (useUser_init (demoStore ''{bad'')))) =
       Map.empty"
    using b getLocalData_cases [of "useUser_init (demoStore ''{bad'')" demoEnv "''{bad''" demoRuntime]
    by simp
  have e: "getLocalData demoRuntime demoEnv (useUser_init (demoStore ''{}'')) =
     (Some ''good'', demoSession)"
    unfolding c by (simp add: useUser_init_def demoSession_def deleteProp_def)
  from a(5,7) b(1,3) d e show ?thesis by blast
qed

section \<open>The logged slot and the held token\<close>

lemma getUsuarioFromStorage_slots:
  "logged (snd (getUsuarioFromStorage rt ev st)) = logged st \<and>
   token (snd (getUsuarioFromStorage rt ev st)) = token st"
  by (simp add: getUsuarioFromStorage_def clearStorage_def split: option.splits)

lemma getUser_slots:
  "logged (getUser rt ev u st) = logged st \<and> token (getUser rt ev u st) = token st"
  using getUsuarioFromStorage_slots [of rt ev st]
  by (cases "getUsuarioFromStorage rt ev st") (simp add: getUser_def Let_def)

lemma getTipoUsuario_slots:
  "logged (snd (getTipoUsuario ev v st)) = logged st \<and>
   token (snd (getTipoUsuario ev v st)) = token st"
  by (simp add: getTipoUsuario_def Let_def)

lemma login_try_Inr:
  "login_try rt ev tok usr st = Inr st' \<Longrightarrow> logged st' = Some True \<and> token st' = Some tok"
  by (auto simp add: login_try_def Let_def getTipoUsuario_slots getUser_slots
      split: option.splits)

text \<open>
  The three outcomes of \<open>login\<close>: the state untouched (and then it is the guard that
  rejected, or nothing changed), a successful login, or a failed one that ends as
  \<open>logout\<close>.
\<close>

lemma login_slots:
  "login rt ev tok usr st = st \<or>
   (logged (login rt ev tok usr st) = Some True \<and> token (login rt ev tok usr st) = Some tok \<and>
    typeof usr = ''object'' \<and> usr \<noteq> JNull \<and> (\<exists>st'. login_try rt ev tok usr st = Inr st')) \<or>
   (login rt ev tok usr st = logout st \<and>
    typeof usr = ''object'' \<and> usr \<noteq> JNull \<and> (\<exists>st'. login_try rt ev tok usr st = Inl st'))"
proof (cases "typeof usr \<noteq> ''object'' \<or> usr = JNull")
  case True
  then show ?thesis by (auto simp add: login_def)
next
  case False
  show ?thesis
  proof (cases "login_try rt ev tok usr st")
    case (Inl a)
    then show ?thesis using False by (simp add: login_def logout_const)
  next
    case (Inr b)
    then show ?thesis using False login_try_Inr [OF Inr] by (simp add: login_def)
  qed
qed

lemma getLocalData_slots:
  "(fst (getLocalData rt ev st) \<noteq> None \<and> logged (snd (getLocalData rt ev st)) = Some True \<and>
    token (snd (getLocalData rt ev st)) \<noteq> None) \<or>
   (fst (getLocalData rt ev st) = None \<and> logged (snd (getLocalData rt ev st)) = Some False \<and>
    token (snd (getLocalData rt ev st)) = None)"
  by (cases "getUsuarioFromStorage rt ev st")
     (auto simp add: getLocalData_def Let_def truthyItem_def split: option.splits)

lemma checkLogged_slots:
  "snd (checkLogged rt ev now ids st) = st \<or>
   (snd (checkLogged rt ev now ids st) = logout st \<and> \<not> fst (checkLogged rt ev now ids st) \<and>
    \<not> TEST ev \<and>
    (\<not> truthyItem (getItem st (storageKey ev ''_token'')) \<or> \<not> verificarToken rt now st))"
  by (simp add: checkLogged_def Let_def)

lemma step_inv: "sessionInv st \<Longrightarrow> sessionInv (step rt ev c st)"
proof (cases c)
  case (Login tok usr)
  assume "sessionInv st"
  then show ?thesis using Login login_slots [of rt ev tok usr st]
    by (auto simp add: sessionInv_def logout_const)
next
  case Logout
  then show ?thesis by (simp add: sessionInv_def logout_const)
next
  case GetLocalData
  then show ?thesis using getLocalData_slots [of rt ev st] by (auto simp add: sessionInv_def)
next
  case (VerificarToken now)
  assume "sessionInv st"
  then show ?thesis using VerificarToken by simp
next
  case (CheckLogged now ids)
  assume "sessionInv st"
  then show ?thesis using CheckLogged checkLogged_slots [of rt ev now ids st]
    by (auto simp add: sessionInv_def logout_const)
qed

lemma reachable_inv: "reachable rt ev st \<Longrightarrow> sessionInv st"
proof (induction rule: reachable.induct)
  case (reach_init store)
  then show ?case by (simp add: sessionInv_def useUser_init_def)
next
  case (reach_step st c)
  then show ?case by (simp add: step_inv)
next
  case (reach_storage st store)
  then show ?case by (simp add: sessionInv_def)
qed

lemma demoSession_reachable: "reachable demoRuntime demoEnv demoSession"
proof -
  have "reachable demoRuntime demoEnv
          (step demoRuntime demoEnv GetLocalData (useUser_init (demoStore ''{}'')))"
    by (rule reach_step) (rule reach_init)
  then show ?thesis by (simp add: getLocalData_demo)
qed

lemma step_keeps_known: "logged st \<noteq> None \<Longrightarrow> logged (step rt ev c st) \<noteq> None"
proof (cases c)
  case (Login tok usr)
  assume "logged st \<noteq> None"
  then show ?thesis using Login login_slots [of rt ev tok usr st] by (auto simp add: logout_const)
next
  case Logout
  then show ?thesis by (simp add: logout_const)
next
  case GetLocalData
  then show ?thesis using getLocalData_slots [of rt ev st] by auto
next
  case (VerificarToken now)
  assume "logged st \<noteq> None"
  then show ?thesis using VerificarToken by simp
next
  case (CheckLogged now ids)
  assume "logged st \<noteq> None"
  then show ?thesis using CheckLogged checkLogged_slots [of rt ev now ids st]
    by (auto simp add: logout_const)
qed

lemma run_keeps_known: "logged st \<noteq> None \<Longrightarrow> logged (run rt ev cs st) \<noteq> None"
proof (induction cs arbitrary: st)
  case Nil
  then show ?case by (simp add: run_def)
next
  case (Cons c cs)
  have "logged (step rt ev c st) \<noteq> None" using Cons.prems by (rule step_keeps_known)
  then have "logged (run rt ev cs (step rt ev c st)) \<noteq> None" by (rule Cons.IH)
  then show ?case by (simp add: run_def)
qed

lemma step_to_true:
  assumes "logged (step rt ev c st) = Some True" "logged st \<noteq> Some True"
  shows "(\<exists>tok usr st'. c = Login tok usr \<and> typeof usr = ''object'' \<and> usr \<noteq> JNull \<and>
            login_try rt ev tok usr st = Inr st') \<or>
         (c = GetLocalData \<and> fst (getLocalData rt ev st) \<noteq> None)"
proof (cases c)
  case (Login tok usr)
  then show ?thesis using assms login_slots [of rt ev tok usr st] by (auto simp add: logout_const)
next
  case Logout
  then show ?thesis using assms by (simp add: logout_const)
next
  case GetLocalData
  then show ?thesis using assms getLocalData_slots [of rt ev st] by auto
next
  case (VerificarToken now)
  then show ?thesis using assms by simp
next
  case (CheckLogged now ids)
  then show ?thesis using assms checkLogged_slots [of rt ev now ids st]
    by (auto simp add: logout_const)
qed

lemma login_success_true:
  assumes "typeof usr = ''object''" "usr \<noteq> JNull" "login_try rt ev tok usr st = Inr st'"
  shows "logged (step rt ev (Login tok usr) st) = Some True"
  using assms login_try_Inr [of rt ev tok usr st st'] by (simp add: login_def)

lemma login_failure_false:
  assumes "typeof usr = ''object''" "usr \<noteq> JNull" "login_try rt ev tok usr st = Inl st'"
  shows "logged (step rt ev (Login tok usr) st) = Some False"
  using assms by (simp add: login_def logout_const)

lemma getLocalData_success_true:
  "fst (getLocalData rt ev st) \<noteq> None \<Longrightarrow> logged (step rt ev GetLocalData st) = Some True"
  using getLocalData_slots [of rt ev st] by auto

lemma checkLogged_failure_false:
  assumes "\<not> TEST ev"
    "\<not> truthyItem (getItem st (storageKey ev ''_token'')) \<or> \<not> verificarToken rt now st"
  shows "logged (step rt ev (CheckLogged now ids) st) = Some False \<and>
         \<not> fst (checkLogged rt ev now ids st)"
  using assms by (auto simp add: checkLogged_def logout_const)

text \<open>
  C9: \<open>logged\<close> starts unknown. Once known it stays known, under every call and every
  sequence of calls. A call that makes it true when it was not is a \<open>login\<close> whose
  \<^verbatim>\<open>try\<close> block ran to its end or a \<open>getLocalData\<close> that returned a token, and both
  always make it true. \<open>logout\<close>, a \<open>login\<close> whose \<^verbatim>\<open>try\<close> block threw, and a
  \<open>checkLogged\<close> (test mode off) that finds no stored token or whose expiry check
  fails make it false.
\<close>

theorem logged_state_machine:
  "logged (useUser_init store) = None \<and>
   (logged st \<noteq> None \<longrightarrow>
      logged (step rt ev c st) \<noteq> None \<and> logged (run rt ev cs st) \<noteq> None) \<and>
   (logged (step rt ev c st) = Some True \<and> logged st \<noteq> Some True \<longrightarrow>
      (\<exists>tok usr st'. c = Login tok usr \<and> typeof usr = ''object'' \<and> usr \<noteq> JNull \<and>
         login_try rt ev tok usr st = Inr st') \<or>
      (c = GetLocalData \<and> fst (getLocalData rt ev st) \<noteq> None)) \<and>
   (typeof usr = ''object'' \<and> usr \<noteq> JNull \<and> login_try rt ev tok usr st = Inr st' \<longrightarrow>
      logged (step rt ev (Login tok usr) st) = Some True) \<and>
   (fst (getLocalData rt ev st) \<noteq> None \<longrightarrow> logged (step rt ev GetLocalData st) = Some True) \<and>
   logged (step rt ev Logout st) = Some False \<and>
   (typeof usr = ''object'' \<and> usr \<noteq> JNull \<and> login_try rt ev tok usr st = Inl st' \<longrightarrow>
      logged (step rt ev (Login tok usr) st) = Some False) \<and>
   (\<not> TEST ev \<and>
    (\<not> truthyItem (getItem st (storageKey ev ''_token'')) \<or> \<not> verificarToken rt now st) \<longrightarrow>
      logged (step rt ev (CheckLogged now ids) st) = Some False \<and>
      \<not> fst (checkLogged rt ev now ids st))"
proof -
  have a: "logged (useUser_init store) = None" by (simp add: useUser_init_def)
  have b: "logged (step rt ev Logout st) = Some False" by (simp add: logout_const)
  show ?thesis
    using a b step_keeps_known [of st rt ev c] run_keeps_known [of st rt ev cs]
      step_to_true [of rt ev c st] login_success_true [of usr rt ev tok st st']
      getLocalData_success_true [of rt ev st] login_failure_false [of usr rt ev tok st st']
      checkLogged_failure_false [of ev st rt now ids]
    by blast
qed

theorem logged_state_machine_witness:
  "logged (useUser_init (demoStore ''{}'')) = None \<and>
   fst (getLocalData demoRuntime demoEnv (useUser_init (demoStore ''{}''))) \<noteq> None \<and>
   logged (step demoRuntime demoEnv GetLocalData (useUser_init (demoStore ''{}''))) = Some True \<and>
   logged (step demoRuntime demoEnv Logout demoSession) = Some False \<and>
   logged demoSession \<noteq> None \<and>
   logged (run demoRuntime demoEnv [Logout, GetLocalData, CheckLogged 0 []] demoSession) \<noteq> None"
proof -
  have a: "fst (getLocalData demoRuntime demoEnv (useUser_init (demoStore ''{}''))) \<noteq> None"
    by (simp add: getLocalData_demo)
  have b: "logged demoSession \<noteq> None" by (simp add: demoSession_slots)
  have c: "logged (useUser_init (demoStore ''{}'')) = None \<and>
     logged (step demoRuntime demoEnv GetLocalData (useUser_init (demoStore ''{}''))) = Some True"
    using a logged_state_machine [where store = "demoStore ''{}''"
        and st = "useUser_init (demoStore ''{}'')" and rt = demoRuntime and ev = demoEnv]
    by blast
  have d: "logged (step demoRuntime demoEnv Logout demoSession) = Some False \<and>
     logged (run demoRuntime demoEnv [Logout, GetLocalData, CheckLogged 0 []] demoSession) \<noteq> None"
    using b logged_state_machine [where st = demoSession and rt = demoRuntime and ev = demoEnv
        and cs = "[Logout, GetLocalData, CheckLogged 0 []]"]
    by blast
  from a b c d show ?thesis by blast
qed

section \<open>checkLogged\<close>

text \<open>
  C3: with test mode off, \<open>checkLogged [1, 2, 3]\<close> returns true only when \<open>logged\<close> is
  known (and in every state of a hook instance that means it is true), the held token
  decodes and its \<^verbatim>\<open>exp\<close>, in milliseconds, is at or after the clock's reading, and the
  stored user-type id, read by \<^verbatim>\<open>parseInt\<close>, is 1, 2 or 3. With test mode on,
  \<open>checkLogged\<close> returns true for every allow-list and every state, and changes nothing.
\<close>

theorem checkLogged_allow_list:
  "(\<not> TEST ev \<and> fst (checkLogged rt ev now [JNum 1, JNum 2, JNum 3] st) \<longrightarrow>
      logged st \<noteq> None \<and>
      (reachable rt ev st \<longrightarrow> logged st = Some True) \<and>
      (\<exists>t c e ms. token st = Some t \<and> jwtDecode rt t = Some c \<and> getProp c ''exp'' = Some e \<and>
         jsTimes (ToNumber rt e) (JNum 1000) = JNum ms \<and> now \<le> ms) \<and>
      (parseInt (itemVal (getItem st (storageKey ev ''_tipo_usuario_id''))) = JNum 1 \<or>
       parseInt (itemVal (getItem st (storageKey ev ''_tipo_usuario_id''))) = JNum 2 \<or>
       parseInt (itemVal (getItem st (storageKey ev ''_tipo_usuario_id''))) = JNum 3)) \<and>
   (TEST ev \<longrightarrow> checkLogged rt ev now ids st = (True, st))"
proof -
  have test: "TEST ev \<longrightarrow> checkLogged rt ev now ids st = (True, st)"
    by (simp add: checkLogged_def)
  have main: "logged st \<noteq> None \<and>
      (reachable rt ev st \<longrightarrow> logged st = Some True) \<and>
      (\<exists>t c e ms. token st = Some t \<and> jwtDecode rt t = Some c \<and> getProp c ''exp'' = Some e \<and>
         jsTimes (ToNumber rt e) (JNum 1000) = JNum ms \<and> now \<le> ms) \<and>
      (parseInt (itemVal (getItem st (storageKey ev ''_tipo_usuario_id''))) = JNum 1 \<or>
       parseInt (itemVal (getItem st (storageKey ev ''_tipo_usuario_id''))) = JNum 2 \<or>
       parseInt (itemVal (getItem st (storageKey ev ''_tipo_usuario_id''))) = JNum 3)"
    if h: "\<not> TEST ev" "fst (checkLogged rt ev now [JNum 1, JNum 2, JNum 3] st)"
  proof -
    from h have v: "verificarToken rt now st"
      by (auto simp add: checkLogged_def Let_def split: if_splits)
    from h v have p: "arrayIncludes [JNum 1, JNum 2, JNum 3]
        (parseInt (itemVal (getItem st (storageKey ev ''_tipo_usuario_id''))))"
      by (auto simp add: checkLogged_def Let_def split: if_splits)
    from verificarToken_true [OF v] obtain t c e ms where
      l: "logged st \<noteq> None" and t: "token st = Some t" "jwtDecode rt t = Some c"
        "getProp c ''exp'' = Some e" "jsTimes (ToNumber rt e) (JNum 1000) = JNum ms" "now \<le> ms"
      by blast
    have r: "reachable rt ev st \<longrightarrow> logged st = Some True"
      using reachable_inv [of rt ev st] t(1) by (auto simp add: sessionInv_def)
    from p have q:
      "parseInt (itemVal (getItem st (storageKey ev ''_tipo_usuario_id''))) = JNum 1 \<or>
       parseInt (itemVal (getItem st (storageKey ev ''_tipo_usuario_id''))) = JNum 2 \<or>
       parseInt (itemVal (getItem st (storageKey ev ''_tipo_usuario_id''))) = JNum 3"
      by (auto simp add: arrayIncludes_def)
    from l r t q show ?thesis by blast
  qed
  from test main show ?thesis by blast
qed

theorem checkLogged_allow_list_witness:
  "\<not> TEST demoEnv \<and>
   fst (checkLogged demoRuntime demoEnv 1700000000000 [JNum 1, JNum 2, JNum 3] demoSession) \<and>
   reachable demoRuntime demoEnv demoSession \<and>
   logged demoSession = Some True \<and>
   parseInt (itemVal (getItem demoSession (storageKey demoEnv ''_tipo_usuario_id''))) = JNum 2 \<and>
   TEST demoTestEnv \<and>
   checkLogged demoRuntime demoTestEnv 0 [JNum 1, JNum 2, JNum 3] (useUser_init Map.empty) =
     (True, useUser_init Map.empty)"
proof -
  have a: "\<not> TEST demoEnv"
    "fst (checkLogged demoRuntime demoEnv 1700000000000 [JNum 1, JNum 2, JNum 3] demoSession)"
    by (simp_all add: checkLogged_demo)
  have b: "TEST demoTestEnv" by simp
  have c: "parseInt (itemVal (getItem demoSession (storageKey demoEnv ''_tipo_usuario_id''))) =
      JNum 2"
    by (simp add: demoSession_slots itemVal_def parseInt_2)
  have d: "logged demoSession = Some True"
    using a demoSession_reachable
      checkLogged_allow_list [where ev = demoEnv and rt = demoRuntime and now = 1700000000000
        and st = demoSession]
    by blast
  have e: "checkLogged demoRuntime demoTestEnv 0 [JNum 1, JNum 2, JNum 3] (useUser_init Map.empty) =
     (True, useUser_init Map.empty)"
    using b checkLogged_allow_list [where ev = demoTestEnv and rt = demoRuntime and now = 0
        and st = "useUser_init Map.empty" and ids = "[JNum 1, JNum 2, JNum 3]"]
    by blast
  from a b c d e demoSession_reachable show ?thesis by blast
qed

text \<open>
  C10: on a hook instance in its initial state, with test mode off, \<open>checkLogged\<close>
  returns false and ends as \<open>logout\<close>, whatever the storage holds and whatever the
  allow-list: the storage is emptied, and \<open>getLocalData\<close> called next returns absent.
  A valid, unexpired session in the storage is thus destroyed, not loaded.
\<close>

theorem checkLogged_destroys_unloaded_session:
  "\<not> TEST ev \<Longrightarrow>
   checkLogged rt ev now ids (useUser_init store) = (False, logout (useUser_init store)) \<and>
   localStorage (snd (checkLogged rt ev now ids (useUser_init store))) = Map.empty \<and>
   fst (getLocalData rt ev (snd (checkLogged rt ev now ids (useUser_init store)))) = None"
  by (simp add: checkLogged_def verificarToken_init logout_const getLocalData_def
      getUsuarioFromStorage_def getItem_def truthyItem_def)

theorem checkLogged_destroys_unloaded_session_witness:
  "\<not> TEST demoEnv \<and>
   getItem (useUser_init (demoStore ''{}'')) (storageKey demoEnv ''_token'') = Some ''good'' \<and>
   fst (getLocalData demoRuntime demoEnv (useUser_init (demoStore ''{}''))) = Some ''good'' \<and>
   fst (checkLogged demoRuntime demoEnv 1700000000000 [] (useUser_init (demoStore ''{}''))) =
     False \<and>
   localStorage (snd (checkLogged demoRuntime demoEnv 1700000000000 []
      (useUser_init (demoStore ''{}'')))) = Map.empty \<and>
   fst (getLocalData demoRuntime demoEnv (snd (checkLogged demoRuntime demoEnv 1700000000000 []
      (useUser_init (demoStore ''{}''))))) = None"
proof -
  have a: "\<not> TEST demoEnv" by simp
  have b: "getItem (useUser_init (demoStore ''{}'')) (storageKey demoEnv ''_token'') = Some ''good''"
    by (simp add: getItem_def useUser_init_def demoStore_def)
  have g: "fst (getLocalData demoRuntime demoEnv (useUser_init (demoStore ''{}''))) = Some ''good''"
    by (simp add: getLocalData_demo)
  have t: "checkLogged demoRuntime demoEnv 1700000000000 [] (useUser_init (demoStore ''{}'')) =
       (False, logout (useUser_init (demoStore ''{}''))) \<and>
     localStorage (snd (checkLogged demoRuntime demoEnv 1700000000000 []
       (useUser_init (demoStore ''{}'')))) = Map.empty \<and>
     fst (getLocalData demoRuntime demoEnv (snd (checkLogged demoRuntime demoEnv 1700000000000 []
       (useUser_init (demoStore ''{}''))))) = None"
    using a by (rule checkLogged_destroys_unloaded_session)
  from t have f:
    "fst (checkLogged demoRuntime demoEnv 1700000000000 [] (useUser_init (demoStore ''{}''))) =
       False"
    by simp
  from a b g f t show ?thesis by blast
qed

end
